theory Spec2Isabelle
  imports Complex_Main
begin

section \<open>The burnout scorer of Goal-Sync (src/utils/burnout.ts)\<close>

text \<open>
  The three exported functions of \<^verbatim>\<open>src/utils/burnout.ts\<close> are pure. A JavaScript
  \<^verbatim>\<open>number\<close> is modelled as a \<^typ>\<open>real\<close>, as the specification's data model does
  ("all intermediate terms are real numbers"): the arithmetic is exact, so the binary
  rounding error of each IEEE-754 operation, and the values NaN and \<open>\<plusminus>\<close>Infinity, are
  outside the model. The literals \<^verbatim>\<open>0.5\<close> and \<^verbatim>\<open>0.3\<close> are the rationals 5/10 and 3/10.
\<close>

subsection \<open>Data\<close>

text \<open>\<^verbatim>\<open>interface BurnoutMetrics\<close>, lines 1-6.\<close>

record BurnoutMetrics =
  stress_level :: real
  sleep_hours :: real
  mood_level :: real
  time_spent_hours :: real

text \<open>The return type of \<^verbatim>\<open>getBurnoutLevel\<close>, lines 38-43: the union of three string
  literals is a datatype, the object a record.\<close>

datatype burnout_level = Low | Moderate | High

record BurnoutInfo =
  level :: burnout_level
  color :: string
  bgColor :: string
  message :: string

subsection \<open>The primitives of the JavaScript library\<close>

text \<open>\<^verbatim>\<open>Math.round(x)\<close> is the integer nearest to \<open>x\<close>; of two equally near integers it
  is the larger one (ECMAScript: "rounding ties towards +\<open>\<infinity>\<close>"), that is
  \<open>\<lfloor>x + 1/2\<rfloor>\<close>. \<^verbatim>\<open>Math.min\<close> and \<^verbatim>\<open>Math.max\<close> are \<^const>\<open>min\<close> and \<^const>\<open>max\<close>.\<close>

definition Math_round :: "real \<Rightarrow> real" where
  "Math_round x = of_int \<lfloor>x + 1 / 2\<rfloor>"

subsection \<open>calculateBurnoutScore, lines 8-36\<close>

text \<open>Each local of the function is a definition of its own, named after it; the two
  \<^verbatim>\<open>let\<close> variables start at 0 and are assigned in the branches of the source.\<close>

definition stressScore :: "BurnoutMetrics \<Rightarrow> real" where
  "stressScore m = ((stress_level m - 1) / 4) * 4"

definition sleepScore :: "BurnoutMetrics \<Rightarrow> real" where
  "sleepScore m =
     (if sleep_hours m < 6 then 3 - (sleep_hours m / 6) * 3
      else if sleep_hours m > 9 then min 2 ((sleep_hours m - 9) * (5 / 10))
      else 0)"

definition moodScore :: "BurnoutMetrics \<Rightarrow> real" where
  "moodScore m = ((5 - mood_level m) / 4) * 3"

definition timeScore :: "BurnoutMetrics \<Rightarrow> real" where
  "timeScore m =
     (if time_spent_hours m > 8 then min 3 ((time_spent_hours m - 8) * (3 / 10))
      else 0)"

definition totalScore :: "BurnoutMetrics \<Rightarrow> real" where
  "totalScore m = stressScore m + sleepScore m + moodScore m + timeScore m"

definition calculateBurnoutScore :: "BurnoutMetrics \<Rightarrow> real" where
  "calculateBurnoutScore m = Math_round (min 10 (max 0 (totalScore m)) * 10) / 10"

subsection \<open>getBurnoutLevel, lines 38-66\<close>

definition getBurnoutLevel :: "real \<Rightarrow> BurnoutInfo" where
  "getBurnoutLevel score =
     (if score \<le> 3 then
        \<lparr>level = Low, color = ''text-green-700'', bgColor = ''bg-green-100'',
         message = ''You're doing great! Keep up the healthy habits.''\<rparr>
      else if score \<le> 6 then
        \<lparr>level = Moderate, color = ''text-yellow-700'', bgColor = ''bg-yellow-100'',
         message = ''Consider taking some time to recharge and relax.''\<rparr>
      else
        \<lparr>level = High, color = ''text-red-700'', bgColor = ''bg-red-100'',
         message = ''High burnout detected. Please prioritize rest and self-care.''\<rparr>)"

subsection \<open>getAdaptiveGoalSuggestion, lines 68-75\<close>

definition getAdaptiveGoalSuggestion :: "real \<Rightarrow> string" where
  "getAdaptiveGoalSuggestion burnoutScore =
     (if burnoutScore \<ge> 7 then
        ''Consider reducing your weekly goals by 30-50% to focus on recovery.''
      else if burnoutScore \<ge> 4 then
        ''You might want to maintain current goals but add more rest periods.''
      else
        ''Your burnout levels look healthy - you can maintain or slightly increase your goals.'')"

subsection \<open>The scoring algorithm in the specification's words\<close>








text \<open>The input domain of section 3: both levels are integers in [1,5], both hour counts
  lie in [0,24].\<close>

definition valid_metrics :: "BurnoutMetrics \<Rightarrow> bool" where
  "valid_metrics m =
     (of_int \<lfloor>stress_level m\<rfloor> = stress_level m \<and> 1 \<le> stress_level m \<and> stress_level m \<le> 5 \<and>
      of_int \<lfloor>mood_level m\<rfloor> = mood_level m \<and> 1 \<le> mood_level m \<and> mood_level m \<le> 5 \<and>
      0 \<le> sleep_hours m \<and> sleep_hours m \<le> 24 \<and>
      0 \<le> time_spent_hours m \<and> time_spent_hours m \<le> 24)"


section \<open>Properties\<close>

subsection \<open>Auxiliary facts\<close>

lemmas score_defs =
  calculateBurnoutScore_def totalScore_def stressScore_def sleepScore_def moodScore_def
  timeScore_def Math_round_def


lemma Math_round_mono: "x \<le> y \<Longrightarrow> Math_round x \<le> Math_round y"
  unfolding Math_round_def by (simp add: floor_mono)

lemma clamp_round_mono:
  "a \<le> b \<Longrightarrow>
   Math_round (min 10 (max 0 a) * 10) / 10 \<le> Math_round (min 10 (max 0 b) * 10) / 10"
  by (intro divide_right_mono Math_round_mono mult_right_mono) auto

lemma score_mono:
  "totalScore m \<le> totalScore m' \<Longrightarrow> calculateBurnoutScore m \<le> calculateBurnoutScore m'"
  unfolding calculateBurnoutScore_def by (rule clamp_round_mono)

lemma clamp_round_range:
  "0 \<le> Math_round (min 10 (max 0 t) * 10) / 10 \<and>
   Math_round (min 10 (max 0 t) * 10) / 10 \<le> 10 \<and>
   10 * (Math_round (min 10 (max 0 t) * 10) / 10) \<in> \<int>"
proof -
  let ?c = "min 10 (max 0 t) * 10"
  have c: "0 \<le> ?c" "?c \<le> 100" by auto
  have "0 \<le> \<lfloor>?c + 1 / 2\<rfloor>" using c by (simp add: le_floor_iff)
  moreover have "\<lfloor>?c + 1 / 2\<rfloor> \<le> 100" using c by (simp add: floor_le_iff)
  ultimately show ?thesis unfolding Math_round_def by simp
qed

lemma totalScore_stress_mono:
  "stress_level m \<le> s \<Longrightarrow> totalScore m \<le> totalScore (m\<lparr>stress_level := s\<rparr>)"
  by (simp add: totalScore_def stressScore_def sleepScore_def moodScore_def timeScore_def)

lemma totalScore_mood_antimono:
  "mood_level m \<le> d \<Longrightarrow> totalScore (m\<lparr>mood_level := d\<rparr>) \<le> totalScore m"
  by (simp add: totalScore_def stressScore_def sleepScore_def moodScore_def timeScore_def)

lemma totalScore_sleep_outward:
  "(h \<le> sleep_hours m \<and> sleep_hours m \<le> 9) \<or> (6 \<le> sleep_hours m \<and> sleep_hours m \<le> h) \<Longrightarrow>
   totalScore m \<le> totalScore (m\<lparr>sleep_hours := h\<rparr>)"
  by (auto simp add: totalScore_def stressScore_def sleepScore_def moodScore_def
      timeScore_def min_def)

lemma totalScore_time_mono:
  "time_spent_hours m \<le> t \<Longrightarrow> totalScore m \<le> totalScore (m\<lparr>time_spent_hours := t\<rparr>)"
  by (auto simp add: totalScore_def stressScore_def sleepScore_def moodScore_def
      timeScore_def min_def)



subsection \<open>The score\<close>


text \<open>C7. On \<open>{stressLevel: 5, sleepHours: 4, moodLevel: 1, timeSpentHours: 16}\<close> the
  terms are 4, 1, 3 and 2.4, their sum is 10.4, the clamp gives 10 and the score is 10;
  its level is high and its suggestion is the reduce-goals message.\<close>

theorem end_to_end_high_example:
  "stressScore \<lparr>stress_level = 5, sleep_hours = 4, mood_level = 1, time_spent_hours = 16\<rparr> = 4 \<and>
   sleepScore \<lparr>stress_level = 5, sleep_hours = 4, mood_level = 1, time_spent_hours = 16\<rparr> = 1 \<and>
   moodScore \<lparr>stress_level = 5, sleep_hours = 4, mood_level = 1, time_spent_hours = 16\<rparr> = 3 \<and>
   timeScore \<lparr>stress_level = 5, sleep_hours = 4, mood_level = 1, time_spent_hours = 16\<rparr> = 24 / 10 \<and>
   totalScore \<lparr>stress_level = 5, sleep_hours = 4, mood_level = 1, time_spent_hours = 16\<rparr> = 104 / 10 \<and>
   min 10 (max 0 (totalScore
     \<lparr>stress_level = 5, sleep_hours = 4, mood_level = 1, time_spent_hours = 16\<rparr>)) = 10 \<and>
   calculateBurnoutScore
     \<lparr>stress_level = 5, sleep_hours = 4, mood_level = 1, time_spent_hours = 16\<rparr> = 10 \<and>
   level (getBurnoutLevel (calculateBurnoutScore
     \<lparr>stress_level = 5, sleep_hours = 4, mood_level = 1, time_spent_hours = 16\<rparr>)) = High \<and>
   getAdaptiveGoalSuggestion (calculateBurnoutScore
     \<lparr>stress_level = 5, sleep_hours = 4, mood_level = 1, time_spent_hours = 16\<rparr>) =
     ''Consider reducing your weekly goals by 30-50% to focus on recovery.''"
  by (simp add: score_defs getBurnoutLevel_def getAdaptiveGoalSuggestion_def)

text \<open>C4. For valid metrics (both levels integers in [1,5], both hour counts in [0,24]) the
  score lies in [0,10] and ten times the score is an integer: it has one decimal place.\<close>

theorem calculateBurnoutScore_valid_range:
  assumes "valid_metrics m"
  shows "0 \<le> calculateBurnoutScore m \<and> calculateBurnoutScore m \<le> 10 \<and>
         10 * calculateBurnoutScore m \<in> \<int>"
  unfolding calculateBurnoutScore_def by (rule clamp_round_range)

theorem calculateBurnoutScore_valid_range_witness:
  "valid_metrics \<lparr>stress_level = 3, sleep_hours = 8, mood_level = 3, time_spent_hours = 8\<rparr> \<and>
   calculateBurnoutScore
     \<lparr>stress_level = 3, sleep_hours = 8, mood_level = 3, time_spent_hours = 8\<rparr> = 35 / 10 \<and>
   0 \<le> calculateBurnoutScore
     \<lparr>stress_level = 3, sleep_hours = 8, mood_level = 3, time_spent_hours = 8\<rparr> \<and>
   calculateBurnoutScore
     \<lparr>stress_level = 3, sleep_hours = 8, mood_level = 3, time_spent_hours = 8\<rparr> \<le> 10 \<and>
   10 * calculateBurnoutScore
     \<lparr>stress_level = 3, sleep_hours = 8, mood_level = 3, time_spent_hours = 8\<rparr> \<in> \<int>"
proof -
  have v: "valid_metrics
      \<lparr>stress_level = 3, sleep_hours = 8, mood_level = 3, time_spent_hours = 8\<rparr>"
    by (simp add: valid_metrics_def)
  have e: "calculateBurnoutScore
      \<lparr>stress_level = 3, sleep_hours = 8, mood_level = 3, time_spent_hours = 8\<rparr> = 35 / 10"
    by (simp add: score_defs)
  from v e calculateBurnoutScore_valid_range [OF v] show ?thesis by blast
qed


text \<open>C5. The score is monotone in each input, the other three held fixed: a higher stress
  level never lowers it; a higher mood level never raises it; sleep hours moved away from
  [6,9] (down from a value of at most 9, or up from a value of at least 6) never lower it;
  more time spent never lowers it. This holds for all real inputs, so in particular on the
  valid domain and for time spent above 8.\<close>

theorem calculateBurnoutScore_monotone:
  "(stress_level m \<le> s \<longrightarrow>
      calculateBurnoutScore m \<le> calculateBurnoutScore (m\<lparr>stress_level := s\<rparr>)) \<and>
   (mood_level m \<le> d \<longrightarrow>
      calculateBurnoutScore (m\<lparr>mood_level := d\<rparr>) \<le> calculateBurnoutScore m) \<and>
   ((h \<le> sleep_hours m \<and> sleep_hours m \<le> 9) \<or> (6 \<le> sleep_hours m \<and> sleep_hours m \<le> h) \<longrightarrow>
      calculateBurnoutScore m \<le> calculateBurnoutScore (m\<lparr>sleep_hours := h\<rparr>)) \<and>
   (time_spent_hours m \<le> t \<longrightarrow>
      calculateBurnoutScore m \<le> calculateBurnoutScore (m\<lparr>time_spent_hours := t\<rparr>))"
  using totalScore_stress_mono [of m s] totalScore_mood_antimono [of m d]
    totalScore_sleep_outward [of h m] totalScore_time_mono [of m t]
  by (blast intro: score_mono)

theorem calculateBurnoutScore_monotone_witness:
  "calculateBurnoutScore
     \<lparr>stress_level = 2, sleep_hours = 5, mood_level = 2, time_spent_hours = 9\<rparr>
   \<le> calculateBurnoutScore
     \<lparr>stress_level = 4, sleep_hours = 5, mood_level = 2, time_spent_hours = 9\<rparr> \<and>
   calculateBurnoutScore
     \<lparr>stress_level = 2, sleep_hours = 5, mood_level = 4, time_spent_hours = 9\<rparr>
   \<le> calculateBurnoutScore
     \<lparr>stress_level = 2, sleep_hours = 5, mood_level = 2, time_spent_hours = 9\<rparr> \<and>
   calculateBurnoutScore
     \<lparr>stress_level = 2, sleep_hours = 5, mood_level = 2, time_spent_hours = 9\<rparr>
   \<le> calculateBurnoutScore
     \<lparr>stress_level = 2, sleep_hours = 3, mood_level = 2, time_spent_hours = 9\<rparr> \<and>
   calculateBurnoutScore
     \<lparr>stress_level = 2, sleep_hours = 5, mood_level = 2, time_spent_hours = 9\<rparr>
   \<le> calculateBurnoutScore
     \<lparr>stress_level = 2, sleep_hours = 5, mood_level = 2, time_spent_hours = 12\<rparr> \<and>
   calculateBurnoutScore
     \<lparr>stress_level = 2, sleep_hours = 10, mood_level = 2, time_spent_hours = 9\<rparr>
   \<le> calculateBurnoutScore
     \<lparr>stress_level = 2, sleep_hours = 12, mood_level = 2, time_spent_hours = 9\<rparr> \<and>
   calculateBurnoutScore
     \<lparr>stress_level = 2, sleep_hours = 5, mood_level = 2, time_spent_hours = 9\<rparr> = 41 / 10 \<and>
   calculateBurnoutScore
     \<lparr>stress_level = 4, sleep_hours = 5, mood_level = 2, time_spent_hours = 9\<rparr> = 61 / 10 \<and>
   calculateBurnoutScore
     \<lparr>stress_level = 2, sleep_hours = 5, mood_level = 4, time_spent_hours = 9\<rparr> = 26 / 10 \<and>
   calculateBurnoutScore
     \<lparr>stress_level = 2, sleep_hours = 3, mood_level = 2, time_spent_hours = 9\<rparr> = 51 / 10 \<and>
   calculateBurnoutScore
     \<lparr>stress_level = 2, sleep_hours = 5, mood_level = 2, time_spent_hours = 12\<rparr> = 5 \<and>
   calculateBurnoutScore
     \<lparr>stress_level = 2, sleep_hours = 10, mood_level = 2, time_spent_hours = 9\<rparr> = 41 / 10 \<and>
   calculateBurnoutScore
     \<lparr>stress_level = 2, sleep_hours = 12, mood_level = 2, time_spent_hours = 9\<rparr> = 51 / 10"
proof -
  have below: "calculateBurnoutScore
       \<lparr>stress_level = 2, sleep_hours = 5, mood_level = 2, time_spent_hours = 9\<rparr>
     \<le> calculateBurnoutScore
       \<lparr>stress_level = 4, sleep_hours = 5, mood_level = 2, time_spent_hours = 9\<rparr> \<and>
     calculateBurnoutScore
       \<lparr>stress_level = 2, sleep_hours = 5, mood_level = 4, time_spent_hours = 9\<rparr>
     \<le> calculateBurnoutScore
       \<lparr>stress_level = 2, sleep_hours = 5, mood_level = 2, time_spent_hours = 9\<rparr> \<and>
     calculateBurnoutScore
       \<lparr>stress_level = 2, sleep_hours = 5, mood_level = 2, time_spent_hours = 9\<rparr>
     \<le> calculateBurnoutScore
       \<lparr>stress_level = 2, sleep_hours = 3, mood_level = 2, time_spent_hours = 9\<rparr> \<and>
     calculateBurnoutScore
       \<lparr>stress_level = 2, sleep_hours = 5, mood_level = 2, time_spent_hours = 9\<rparr>
     \<le> calculateBurnoutScore
       \<lparr>stress_level = 2, sleep_hours = 5, mood_level = 2, time_spent_hours = 12\<rparr>"
    using calculateBurnoutScore_monotone
      [of "\<lparr>stress_level = 2, sleep_hours = 5, mood_level = 2, time_spent_hours = 9\<rparr>"
        4 4 3 12]
    by simp
  have above: "calculateBurnoutScore
       \<lparr>stress_level = 2, sleep_hours = 10, mood_level = 2, time_spent_hours = 9\<rparr>
     \<le> calculateBurnoutScore
       \<lparr>stress_level = 2, sleep_hours = 12, mood_level = 2, time_spent_hours = 9\<rparr>"
    using calculateBurnoutScore_monotone
      [of "\<lparr>stress_level = 2, sleep_hours = 10, mood_level = 2, time_spent_hours = 9\<rparr>"
        2 2 12 9]
    by simp
  have vals:
    "calculateBurnoutScore
       \<lparr>stress_level = 2, sleep_hours = 5, mood_level = 2, time_spent_hours = 9\<rparr> = 41 / 10"
    "calculateBurnoutScore
       \<lparr>stress_level = 4, sleep_hours = 5, mood_level = 2, time_spent_hours = 9\<rparr> = 61 / 10"
    "calculateBurnoutScore
       \<lparr>stress_level = 2, sleep_hours = 5, mood_level = 4, time_spent_hours = 9\<rparr> = 26 / 10"
    "calculateBurnoutScore
       \<lparr>stress_level = 2, sleep_hours = 3, mood_level = 2, time_spent_hours = 9\<rparr> = 51 / 10"
    "calculateBurnoutScore
       \<lparr>stress_level = 2, sleep_hours = 5, mood_level = 2, time_spent_hours = 12\<rparr> = 5"
    "calculateBurnoutScore
       \<lparr>stress_level = 2, sleep_hours = 10, mood_level = 2, time_spent_hours = 9\<rparr> = 41 / 10"
    "calculateBurnoutScore
       \<lparr>stress_level = 2, sleep_hours = 12, mood_level = 2, time_spent_hours = 9\<rparr> = 51 / 10"
    by (simp_all add: score_defs)
  from below above vals show ?thesis by blast
qed



subsection \<open>The classification\<close>

text \<open>C2. For every score \<open>v\<close>, the level is low with the message "You're doing great! Keep
  up the healthy habits." exactly when \<open>v \<le> 3\<close>; moderate with "Consider taking some
  time to recharge and relax." exactly when \<open>3 < v \<le> 6\<close>; high with "High burnout
  detected. Please prioritize rest and self-care." exactly when \<open>v > 6\<close>. So 3 is low,
  3.1 and 6 are moderate, 6.1 is high.\<close>

theorem getBurnoutLevel_bands:
  "((level (getBurnoutLevel v) = Low \<and>
      message (getBurnoutLevel v) = ''You're doing great! Keep up the healthy habits.'')
     = (v \<le> 3)) \<and>
   ((level (getBurnoutLevel v) = Moderate \<and>
      message (getBurnoutLevel v) = ''Consider taking some time to recharge and relax.'')
     = (3 < v \<and> v \<le> 6)) \<and>
   ((level (getBurnoutLevel v) = High \<and>
      message (getBurnoutLevel v) =
        ''High burnout detected. Please prioritize rest and self-care.'')
     = (6 < v)) \<and>
   level (getBurnoutLevel 3) = Low \<and>
   level (getBurnoutLevel (31 / 10)) = Moderate \<and>
   level (getBurnoutLevel 6) = Moderate \<and>
   level (getBurnoutLevel (61 / 10)) = High"
  by (simp add: getBurnoutLevel_def)

text \<open>C6, as the code has it. Were the bands inclusive on their lower bound, the score 3
  would be moderate and the score 6 high; the code compares with \<open>\<le>\<close>, so 3 is not
  moderate and 6 is not high.\<close>

theorem getBurnoutLevel_lower_bound_counterexample:
  "level (getBurnoutLevel 3) \<noteq> Moderate \<and> level (getBurnoutLevel 6) \<noteq> High"
  by (simp add: getBurnoutLevel_def)

text \<open>C6, amended. The bands are inclusive on their upper bound: the boundary score 3 is in
  the low band and the boundary score 6 in the moderate band; the moderate band is
  \<open>3 < v \<le> 6\<close> and the high band is \<open>6 < v\<close>, both without their lower bound.\<close>

theorem getBurnoutLevel_upper_bound_inclusive:
  "level (getBurnoutLevel 3) = Low \<and>
   level (getBurnoutLevel 6) = Moderate \<and>
   (level (getBurnoutLevel v) = Low) = (v \<le> 3) \<and>
   (level (getBurnoutLevel v) = Moderate) = (3 < v \<and> v \<le> 6) \<and>
   (level (getBurnoutLevel v) = High) = (6 < v)"
  by (simp add: getBurnoutLevel_def)

text \<open>C9. \<^const>\<open>getBurnoutLevel\<close> is defined for every real score, also outside [0,10]:
  a score of at most 3, negative ones included, gives the low record, a score above 6,
  also above 10, gives the high record, and the result is always one of the three records,
  each level with its own colour, background colour and message.\<close>

theorem getBurnoutLevel_total:
  "(v \<le> 3 \<longrightarrow> getBurnoutLevel v =
      \<lparr>level = Low, color = ''text-green-700'', bgColor = ''bg-green-100'',
       message = ''You're doing great! Keep up the healthy habits.''\<rparr>) \<and>
   (6 < v \<longrightarrow> getBurnoutLevel v =
      \<lparr>level = High, color = ''text-red-700'', bgColor = ''bg-red-100'',
       message = ''High burnout detected. Please prioritize rest and self-care.''\<rparr>) \<and>
   (getBurnoutLevel v =
      \<lparr>level = Low, color = ''text-green-700'', bgColor = ''bg-green-100'',
       message = ''You're doing great! Keep up the healthy habits.''\<rparr> \<or>
    getBurnoutLevel v =
      \<lparr>level = Moderate, color = ''text-yellow-700'', bgColor = ''bg-yellow-100'',
       message = ''Consider taking some time to recharge and relax.''\<rparr> \<or>
    getBurnoutLevel v =
      \<lparr>level = High, color = ''text-red-700'', bgColor = ''bg-red-100'',
       message = ''High burnout detected. Please prioritize rest and self-care.''\<rparr>)"
  by (simp add: getBurnoutLevel_def)

theorem getBurnoutLevel_total_witness:
  "getBurnoutLevel (- 5) =
     \<lparr>level = Low, color = ''text-green-700'', bgColor = ''bg-green-100'',
      message = ''You're doing great! Keep up the healthy habits.''\<rparr> \<and>
   getBurnoutLevel 11 =
     \<lparr>level = High, color = ''text-red-700'', bgColor = ''bg-red-100'',
      message = ''High burnout detected. Please prioritize rest and self-care.''\<rparr>"
  using getBurnoutLevel_total [of "- 5"] getBurnoutLevel_total [of 11]
  by simp

subsection \<open>The suggestion\<close>

text \<open>C3. For every score \<open>v\<close>, the suggestion is the reduce-goals message exactly when
  \<open>v \<ge> 7\<close>, the add-rest message exactly when \<open>4 \<le> v < 7\<close>, and the healthy message
  exactly when \<open>v < 4\<close>. So 6.9 and 7 differ, and 3.9 and 4 differ. The thresholds 4 and 7
  are not those of the classification, 3 and 6: 3.5 is classified moderate and gets the
  healthy message, 6.5 is classified high and gets the add-rest message.\<close>

theorem getAdaptiveGoalSuggestion_bands:
  "(getAdaptiveGoalSuggestion v =
      ''Consider reducing your weekly goals by 30-50% to focus on recovery.'') = (7 \<le> v) \<and>
   (getAdaptiveGoalSuggestion v =
      ''You might want to maintain current goals but add more rest periods.'')
     = (4 \<le> v \<and> v < 7) \<and>
   (getAdaptiveGoalSuggestion v =
      ''Your burnout levels look healthy - you can maintain or slightly increase your goals.'')
     = (v < 4) \<and>
   getAdaptiveGoalSuggestion (69 / 10) \<noteq> getAdaptiveGoalSuggestion 7 \<and>
   getAdaptiveGoalSuggestion (39 / 10) \<noteq> getAdaptiveGoalSuggestion 4 \<and>
   level (getBurnoutLevel (35 / 10)) = Moderate \<and>
   getAdaptiveGoalSuggestion (35 / 10) =
     ''Your burnout levels look healthy - you can maintain or slightly increase your goals.'' \<and>
   level (getBurnoutLevel (65 / 10)) = High \<and>
   getAdaptiveGoalSuggestion (65 / 10) =
     ''You might want to maintain current goals but add more rest periods.''"
  by (simp add: getAdaptiveGoalSuggestion_def getBurnoutLevel_def)

end
